theory Spec2Isabelle
  imports Complex_Main
begin

section \<open>Shapely base geometry layer (shapely/geometry/base.py)\<close>

text \<open>
  The module wraps handles of the GEOS engine. The engine (\<open>lgeos\<close>), the operation table
  (\<open>shapely.impl.DefaultImplementation\<close>) and the concrete geometry classes live in other
  modules; they are parameters of the model. Python exceptions are values of the type
  \<open>error\<close>, a raising function returns \<open>Inl\<close>. AttributeError and OverflowError are
  raised by the interpreter with a text that depends on its version; they carry none.
\<close>

subsection \<open>Values, errors and the engine interface\<close>

text \<open>
  A raw engine reference as ctypes hands it to Python: \<open>None\<close> for a NULL pointer,
  otherwise the address. Python's truth test \<open>not g\<close> is true of \<open>None\<close> and of the
  address 0, whereas \<open>g is None\<close> is true of \<open>None\<close> only.
\<close>

type_synonym raw = "nat option"

text \<open>A reference to another Python object (the identity of a parent wrapper).\<close>

type_synonym ref = nat

datatype error =
    ValueError string
  | NotImplementedError string
  | IndexError string
  | TypeError string
  | AttributeError
  | OverflowError

definition truthy :: "raw \<Rightarrow> bool" where
  "truthy g = (case g of None \<Rightarrow> False | Some a \<Rightarrow> a \<noteq> 0)"

text \<open>Sequencing of calls that may raise: the first exception propagates.\<close>

definition bind_result :: "error + 'a \<Rightarrow> ('a \<Rightarrow> error + 'b) \<Rightarrow> error + 'b" where
  "bind_result r f = (case r of Inl e \<Rightarrow> Inl e | Inr v \<Rightarrow> f v)"

text \<open>
  The functions of \<open>lgeos\<close> that this module calls. \<open>GEOSGeom_destroy\<close> is the engine's
  release; its calls are recorded, in order, in a release log that the destructor threads.
\<close>

record lgeos =
  GEOSGeomTypeId :: "raw \<Rightarrow> int"
  GEOSGetGeometryN :: "raw \<Rightarrow> int \<Rightarrow> raw"
  GEOSGetNumGeometries :: "raw \<Rightarrow> int"

type_synonym release_log = "nat list"

definition GEOSGeom_destroy :: "nat \<Rightarrow> release_log \<Rightarrow> release_log" where
  "GEOSGeom_destroy a rl = rl @ [a]"

subsection \<open>Python floats\<close>

text \<open>
  A float is an IEEE binary64 number, given by its real value; infinities and NaN have no
  counterpart, and the expressions below do not produce them. \<open>binary64_round x\<close> is the
  float nearest to \<open>x\<close>, a tie going to the even significand: 53 significant bits, the
  exponent of the last bit no smaller than \<open>-1074\<close>.
\<close>

definition round_half_even :: "real \<Rightarrow> int" where
  "round_half_even x =
     (let f = \<lfloor>x\<rfloor>; d = x - of_int f
      in if d < 1 / 2 then f else if 1 / 2 < d then f + 1 else if even f then f else f + 1)"

definition binary64_exponent :: "real \<Rightarrow> int" where
  "binary64_exponent x = max (\<lfloor>log 2 \<bar>x\<bar>\<rfloor> - 52) (- 1074)"

definition binary64_round :: "real \<Rightarrow> real" where
  "binary64_round x =
     (if x = 0 then 0
      else of_int (round_half_even (x / 2 powi binary64_exponent x)) * 2 powi binary64_exponent x)"

text \<open>
  The conversion of an int to a float that arithmetic between the two performs: it raises
  OverflowError when the int rounds beyond the largest float, \<open>2^1024 - 2^971\<close>.
\<close>

definition py_float_of_int :: "int \<Rightarrow> error + real" where
  "py_float_of_int i =
     (if 2 ^ 1024 - 2 ^ 970 \<le> \<bar>real_of_int i\<bar> then Inl OverflowError
      else Inr (binary64_round (of_int i)))"

text \<open>
  The expression \<open>0.5 * 10**(-decimal)\<close> for an int \<open>decimal\<close>. With an exponent that is
  not negative, \<open>10**n\<close> is an int, which the product converts to a float. With a
  negative exponent, \<open>**\<close> converts both operands to floats and calls the C library's
  \<open>pow\<close>, the parameter \<open>pw\<close>. The product by 0.5 is rounded.
\<close>

definition tolerance_expr :: "(real \<Rightarrow> real \<Rightarrow> real) \<Rightarrow> int \<Rightarrow> error + real" where
  "tolerance_expr pw decimal =
     (let n = - decimal
      in if 0 \<le> n
         then bind_result (py_float_of_int (10 ^ nat n)) (\<lambda>y. Inr (binary64_round (0.5 * y)))
         else bind_result (py_float_of_int n) (\<lambda>y. Inr (binary64_round (0.5 * pw 10 y))))"

subsection \<open>Type table and \<open>geometry_type_name\<close>\<close>

definition GEOMETRY_TYPES :: "string list" where
  "GEOMETRY_TYPES =
     [''Point'', ''LineString'', ''LinearRing'', ''Polygon'', ''MultiPoint'',
      ''MultiLineString'', ''MultiPolygon'', ''GeometryCollection'']"

text \<open>
  Python's \<open>xs[i]\<close> on a list: an index from \<open>-len(xs)\<close> to \<open>-1\<close> counts from the end,
  an index outside \<open>-len(xs) .. len(xs) - 1\<close> raises IndexError.
\<close>

definition py_getitem :: "'a list \<Rightarrow> int \<Rightarrow> error + 'a" where
  "py_getitem xs i =
     (if 0 \<le> i \<and> i < int (length xs) then Inr (xs ! nat i)
      else if - int (length xs) \<le> i \<and> i < 0 then Inr (xs ! nat (int (length xs) + i))
      else Inl (IndexError ''list index out of range''))"

definition geometry_type_name :: "lgeos \<Rightarrow> raw \<Rightarrow> error + string" where
  "geometry_type_name eng g =
     (if g = None then Inl (ValueError ''Null geometry has no type'')
      else py_getitem GEOMETRY_TYPES (GEOSGeomTypeId eng g))"

subsection \<open>The wrapper \<open>BaseGeometry\<close>\<close>

text \<open>
  The attributes of a wrapper. \<open>bg_class\<close> is the name of the object's class,
  \<open>bg_geom\<close> the attribute \<open>__geom__\<close> (read and written through the property \<open>_geom\<close>),
  \<open>bg_p\<close> the attribute \<open>__p__\<close>, and \<open>bg_owned\<close> the flag \<open>_owned\<close>: true when the
  engine geometry is owned by another object, so that this wrapper must not release it.
\<close>

record BaseGeometry =
  bg_class :: string
  bg_geom :: raw
  bg_p :: "ref option"
  bg_ctypes_data :: "nat option"
  bg_ndim :: "int option"
  bg_crs :: "nat option"
  bg_owned :: bool

text \<open>\<open>BaseGeometry()\<close>: the class attributes, then \<open>__init__\<close> sets \<open>__geom__\<close> to None.\<close>

definition BaseGeometry_init :: BaseGeometry where
  "BaseGeometry_init =
     \<lparr>bg_class = ''BaseGeometry'', bg_geom = None, bg_p = None, bg_ctypes_data = None,
      bg_ndim = None, bg_crs = None, bg_owned = False\<rparr>"

text \<open>
  \<open>__del__\<close>: releases the engine geometry when there is one and it is not owned by
  another object, then clears \<open>__geom__\<close> and \<open>__p__\<close>.
\<close>

definition BaseGeometry_del :: "BaseGeometry \<Rightarrow> release_log \<Rightarrow> BaseGeometry \<times> release_log" where
  "BaseGeometry_del self rl =
     (let rl' = (case bg_geom self of
                    None \<Rightarrow> rl
                  | Some a \<Rightarrow> if \<not> bg_owned self then GEOSGeom_destroy a rl else rl)
      in (self\<lparr>bg_geom := None, bg_p := None\<rparr>, rl'))"

text \<open>
  \<open>geom_factory(g, parent=None)\<close>. The class is looked up in \<open>shapely.geometry\<close> under the
  name \<open>geometry_type_name\<close> returns; the lookup is taken to succeed for the eight names
  of the table.
\<close>

definition geom_factory :: "lgeos \<Rightarrow> raw \<Rightarrow> ref option \<Rightarrow> error + BaseGeometry" where
  "geom_factory eng g parent =
     (if \<not> truthy g
      then Inl (ValueError ''No Shapely geometry can be created from null value'')
      else
        let ob = BaseGeometry_init in
        bind_result (geometry_type_name eng g) (\<lambda>geom_type.
          Inr (ob\<lparr>bg_class := geom_type, bg_geom := g, bg_p := parent, bg_ndim := Some 2\<rparr>)))"

text \<open>The decorator \<open>exceptNull\<close>: the wrapped function runs only on a true \<open>_geom\<close>.\<close>

definition exceptNull :: "(BaseGeometry \<Rightarrow> error + 'a) \<Rightarrow> BaseGeometry \<Rightarrow> error + 'a" where
  "exceptNull func self =
     (if \<not> truthy (bg_geom self)
      then Inl (ValueError ''Null geometry supports no operations'')
      else func self)"

text \<open>\<open>geometryType\<close> (decorated), and the properties \<open>type\<close> and \<open>geom_type\<close> that call it.\<close>

definition BaseGeometry_geometryType :: "lgeos \<Rightarrow> BaseGeometry \<Rightarrow> error + string" where
  "BaseGeometry_geometryType eng =
     exceptNull (\<lambda>self. geometry_type_name eng (bg_geom self))"

definition BaseGeometry_type :: "lgeos \<Rightarrow> BaseGeometry \<Rightarrow> error + string" where
  "BaseGeometry_type eng self = BaseGeometry_geometryType eng self"

definition BaseGeometry_geom_type :: "lgeos \<Rightarrow> BaseGeometry \<Rightarrow> error + string" where
  "BaseGeometry_geom_type eng self = BaseGeometry_geometryType eng self"

subsection \<open>The operation table\<close>

text \<open>
  \<open>imp\<close> is the table \<open>DefaultImplementation\<close> of \<open>shapely.impl\<close>, a dictionary from
  operation names to backend functions; one field stands for each key the module looks
  up. A backend function may raise. A float is given by its real value; a predicate's raw
  result is an integer that \<open>bool(...)\<close> coerces.
\<close>

record imp =
  imp_area :: "BaseGeometry \<Rightarrow> error + real"
  imp_distance :: "BaseGeometry \<Rightarrow> BaseGeometry \<Rightarrow> error + real"
  imp_length :: "BaseGeometry \<Rightarrow> error + real"
  imp_boundary :: "BaseGeometry \<Rightarrow> error + raw"
  imp_bounds :: "BaseGeometry \<Rightarrow> error + (real \<times> real \<times> real \<times> real)"
  imp_centroid :: "BaseGeometry \<Rightarrow> error + raw"
  imp_convex_hull :: "BaseGeometry \<Rightarrow> error + raw"
  imp_envelope :: "BaseGeometry \<Rightarrow> error + raw"
  imp_buffer :: "BaseGeometry \<Rightarrow> real \<Rightarrow> int \<Rightarrow> error + raw"
  imp_simplify :: "BaseGeometry \<Rightarrow> real \<Rightarrow> error + raw"
  imp_topology_preserve_simplify :: "BaseGeometry \<Rightarrow> real \<Rightarrow> error + raw"
  imp_difference :: "BaseGeometry \<Rightarrow> BaseGeometry \<Rightarrow> error + raw"
  imp_intersection :: "BaseGeometry \<Rightarrow> BaseGeometry \<Rightarrow> error + raw"
  imp_symmetric_difference :: "BaseGeometry \<Rightarrow> BaseGeometry \<Rightarrow> error + raw"
  imp_union :: "BaseGeometry \<Rightarrow> BaseGeometry \<Rightarrow> error + raw"
  imp_has_z :: "BaseGeometry \<Rightarrow> error + int"
  imp_is_empty :: "BaseGeometry \<Rightarrow> error + int"
  imp_is_ring :: "BaseGeometry \<Rightarrow> error + int"
  imp_is_simple :: "BaseGeometry \<Rightarrow> error + int"
  imp_is_valid :: "BaseGeometry \<Rightarrow> error + int"
  imp_relate :: "BaseGeometry \<Rightarrow> BaseGeometry \<Rightarrow> error + string"
  imp_contains :: "BaseGeometry \<Rightarrow> BaseGeometry \<Rightarrow> error + int"
  imp_crosses :: "BaseGeometry \<Rightarrow> BaseGeometry \<Rightarrow> error + int"
  imp_disjoint :: "BaseGeometry \<Rightarrow> BaseGeometry \<Rightarrow> error + int"
  imp_equals :: "BaseGeometry \<Rightarrow> BaseGeometry \<Rightarrow> error + int"
  imp_intersects :: "BaseGeometry \<Rightarrow> BaseGeometry \<Rightarrow> error + int"
  imp_overlaps :: "BaseGeometry \<Rightarrow> BaseGeometry \<Rightarrow> error + int"
  imp_touches :: "BaseGeometry \<Rightarrow> BaseGeometry \<Rightarrow> error + int"
  imp_within :: "BaseGeometry \<Rightarrow> BaseGeometry \<Rightarrow> error + int"
  imp_equals_exact :: "BaseGeometry \<Rightarrow> BaseGeometry \<Rightarrow> real \<Rightarrow> error + int"
  imp_project :: "BaseGeometry \<Rightarrow> BaseGeometry \<Rightarrow> error + real"
  imp_project_normalized :: "BaseGeometry \<Rightarrow> BaseGeometry \<Rightarrow> error + real"
  imp_interpolate :: "BaseGeometry \<Rightarrow> real \<Rightarrow> error + raw"
  imp_interpolate_normalized :: "BaseGeometry \<Rightarrow> real \<Rightarrow> error + raw"

text \<open>\<open>bool(v)\<close> of an integer result, under the exception the call may have raised.\<close>

definition py_bool :: "error + int \<Rightarrow> error + bool" where
  "py_bool r = bind_result r (\<lambda>v. Inr (v \<noteq> 0))"

subsection \<open>Array interface and coordinate access of \<open>BaseGeometry\<close>\<close>

text \<open>The coordinate sequence of \<open>shapely.coords\<close>, a view of the wrapper it is built on.\<close>

datatype CoordinateSequence = CoordinateSequence BaseGeometry

text \<open>
  A class attribute made by \<open>property(fget, fset)\<close>, or by the decorator \<open>@property\<close>,
  which gives no \<open>fset\<close>. Reading the attribute of an object calls \<open>fget\<close>, assigning to
  it calls \<open>fset\<close>; where the function is missing the interpreter raises AttributeError.
\<close>

record ('a, 'v) property =
  fget :: "(BaseGeometry \<Rightarrow> error + 'a) option"
  fset :: "(BaseGeometry \<Rightarrow> 'v \<Rightarrow> error + unit) option"

definition property_read :: "('a, 'v) property \<Rightarrow> BaseGeometry \<Rightarrow> error + 'a" where
  "property_read prop self =
     (case fget prop of None \<Rightarrow> Inl AttributeError | Some f \<Rightarrow> f self)"

definition property_assign :: "('a, 'v) property \<Rightarrow> BaseGeometry \<Rightarrow> 'v \<Rightarrow> error + unit" where
  "property_assign prop self v =
     (case fset prop of None \<Rightarrow> Inl AttributeError | Some f \<Rightarrow> f self v)"

definition BaseGeometry_ctypes :: "BaseGeometry \<Rightarrow> error + nat" where
  "BaseGeometry_ctypes self = Inl (NotImplementedError [])"

definition BaseGeometry_array_interface :: "BaseGeometry \<Rightarrow> error + nat" where
  "BaseGeometry_array_interface self = Inl (NotImplementedError [])"

definition BaseGeometry_get_coords :: "BaseGeometry \<Rightarrow> error + CoordinateSequence" where
  "BaseGeometry_get_coords = exceptNull (\<lambda>self. Inr (CoordinateSequence self))"

definition BaseGeometry_set_coords :: "BaseGeometry \<Rightarrow> 'ob \<Rightarrow> error + unit" where
  "BaseGeometry_set_coords self ob =
     Inl (NotImplementedError ''set_coords must be provided by derived classes'')"

text \<open>\<open>coords = property(_get_coords, _set_coords)\<close>\<close>

definition BaseGeometry_coords :: "(CoordinateSequence, 'ob) property" where
  "BaseGeometry_coords =
     \<lparr>fget = Some BaseGeometry_get_coords, fset = Some BaseGeometry_set_coords\<rparr>"

definition BaseGeometry_geo_interface :: "BaseGeometry \<Rightarrow> error + nat" where
  "BaseGeometry_geo_interface self = Inl (NotImplementedError [])"

subsection \<open>Real-valued properties and methods\<close>

definition BaseGeometry_area :: "imp \<Rightarrow> BaseGeometry \<Rightarrow> error + real" where
  "BaseGeometry_area tbl self = imp_area tbl self"

definition BaseGeometry_distance :: "imp \<Rightarrow> BaseGeometry \<Rightarrow> BaseGeometry \<Rightarrow> error + real" where
  "BaseGeometry_distance tbl self other = imp_distance tbl self other"

definition BaseGeometry_length :: "imp \<Rightarrow> BaseGeometry \<Rightarrow> error + real" where
  "BaseGeometry_length tbl self = imp_length tbl self"

subsection \<open>Topological properties and binary operations\<close>

definition BaseGeometry_boundary :: "lgeos \<Rightarrow> imp \<Rightarrow> BaseGeometry \<Rightarrow> error + BaseGeometry" where
  "BaseGeometry_boundary eng tbl self =
     bind_result (imp_boundary tbl self) (\<lambda>g. geom_factory eng g None)"

definition BaseGeometry_bounds ::
  "imp \<Rightarrow> BaseGeometry \<Rightarrow> error + (real \<times> real \<times> real \<times> real)" where
  "BaseGeometry_bounds tbl self = imp_bounds tbl self"

definition BaseGeometry_centroid :: "lgeos \<Rightarrow> imp \<Rightarrow> BaseGeometry \<Rightarrow> error + BaseGeometry" where
  "BaseGeometry_centroid eng tbl self =
     bind_result (imp_centroid tbl self) (\<lambda>g. geom_factory eng g None)"

definition BaseGeometry_convex_hull :: "lgeos \<Rightarrow> imp \<Rightarrow> BaseGeometry \<Rightarrow> error + BaseGeometry" where
  "BaseGeometry_convex_hull eng tbl self =
     bind_result (imp_convex_hull tbl self) (\<lambda>g. geom_factory eng g None)"

definition BaseGeometry_envelope :: "lgeos \<Rightarrow> imp \<Rightarrow> BaseGeometry \<Rightarrow> error + BaseGeometry" where
  "BaseGeometry_envelope eng tbl self =
     bind_result (imp_envelope tbl self) (\<lambda>g. geom_factory eng g None)"

definition BaseGeometry_buffer ::
  "lgeos \<Rightarrow> imp \<Rightarrow> BaseGeometry \<Rightarrow> real \<Rightarrow> int \<Rightarrow> error + BaseGeometry" where
  "BaseGeometry_buffer eng tbl self distance quadsegs =
     bind_result (imp_buffer tbl self distance quadsegs) (\<lambda>g. geom_factory eng g None)"

definition BaseGeometry_simplify ::
  "lgeos \<Rightarrow> imp \<Rightarrow> BaseGeometry \<Rightarrow> real \<Rightarrow> bool \<Rightarrow> error + BaseGeometry" where
  "BaseGeometry_simplify eng tbl self tolerance preserve_topology =
     (let op = (if preserve_topology then imp_topology_preserve_simplify tbl
                else imp_simplify tbl)
      in bind_result (op self tolerance) (\<lambda>g. geom_factory eng g None))"

definition BaseGeometry_difference ::
  "lgeos \<Rightarrow> imp \<Rightarrow> BaseGeometry \<Rightarrow> BaseGeometry \<Rightarrow> error + BaseGeometry" where
  "BaseGeometry_difference eng tbl self other =
     bind_result (imp_difference tbl self other) (\<lambda>g. geom_factory eng g None)"

definition BaseGeometry_intersection ::
  "lgeos \<Rightarrow> imp \<Rightarrow> BaseGeometry \<Rightarrow> BaseGeometry \<Rightarrow> error + BaseGeometry" where
  "BaseGeometry_intersection eng tbl self other =
     bind_result (imp_intersection tbl self other) (\<lambda>g. geom_factory eng g None)"

definition BaseGeometry_symmetric_difference ::
  "lgeos \<Rightarrow> imp \<Rightarrow> BaseGeometry \<Rightarrow> BaseGeometry \<Rightarrow> error + BaseGeometry" where
  "BaseGeometry_symmetric_difference eng tbl self other =
     bind_result (imp_symmetric_difference tbl self other) (\<lambda>g. geom_factory eng g None)"

definition BaseGeometry_union ::
  "lgeos \<Rightarrow> imp \<Rightarrow> BaseGeometry \<Rightarrow> BaseGeometry \<Rightarrow> error + BaseGeometry" where
  "BaseGeometry_union eng tbl self other =
     bind_result (imp_union tbl self other) (\<lambda>g. geom_factory eng g None)"

subsection \<open>Predicates\<close>

definition BaseGeometry_has_z :: "imp \<Rightarrow> BaseGeometry \<Rightarrow> error + bool" where
  "BaseGeometry_has_z tbl self = py_bool (imp_has_z tbl self)"

definition BaseGeometry_is_empty :: "imp \<Rightarrow> BaseGeometry \<Rightarrow> error + bool" where
  "BaseGeometry_is_empty tbl self = py_bool (imp_is_empty tbl self)"

definition BaseGeometry_is_ring :: "imp \<Rightarrow> BaseGeometry \<Rightarrow> error + bool" where
  "BaseGeometry_is_ring tbl self = py_bool (imp_is_ring tbl self)"

definition BaseGeometry_is_simple :: "imp \<Rightarrow> BaseGeometry \<Rightarrow> error + bool" where
  "BaseGeometry_is_simple tbl self = py_bool (imp_is_simple tbl self)"

definition BaseGeometry_is_valid :: "imp \<Rightarrow> BaseGeometry \<Rightarrow> error + bool" where
  "BaseGeometry_is_valid tbl self = py_bool (imp_is_valid tbl self)"

definition BaseGeometry_relate :: "imp \<Rightarrow> BaseGeometry \<Rightarrow> BaseGeometry \<Rightarrow> error + string" where
  "BaseGeometry_relate tbl self other = imp_relate tbl self other"

definition BaseGeometry_contains :: "imp \<Rightarrow> BaseGeometry \<Rightarrow> BaseGeometry \<Rightarrow> error + bool" where
  "BaseGeometry_contains tbl self other = py_bool (imp_contains tbl self other)"

definition BaseGeometry_crosses :: "imp \<Rightarrow> BaseGeometry \<Rightarrow> BaseGeometry \<Rightarrow> error + bool" where
  "BaseGeometry_crosses tbl self other = py_bool (imp_crosses tbl self other)"

definition BaseGeometry_disjoint :: "imp \<Rightarrow> BaseGeometry \<Rightarrow> BaseGeometry \<Rightarrow> error + bool" where
  "BaseGeometry_disjoint tbl self other = py_bool (imp_disjoint tbl self other)"

definition BaseGeometry_equals :: "imp \<Rightarrow> BaseGeometry \<Rightarrow> BaseGeometry \<Rightarrow> error + bool" where
  "BaseGeometry_equals tbl self other = py_bool (imp_equals tbl self other)"

definition BaseGeometry_intersects :: "imp \<Rightarrow> BaseGeometry \<Rightarrow> BaseGeometry \<Rightarrow> error + bool" where
  "BaseGeometry_intersects tbl self other = py_bool (imp_intersects tbl self other)"

definition BaseGeometry_overlaps :: "imp \<Rightarrow> BaseGeometry \<Rightarrow> BaseGeometry \<Rightarrow> error + bool" where
  "BaseGeometry_overlaps tbl self other = py_bool (imp_overlaps tbl self other)"

definition BaseGeometry_touches :: "imp \<Rightarrow> BaseGeometry \<Rightarrow> BaseGeometry \<Rightarrow> error + bool" where
  "BaseGeometry_touches tbl self other = py_bool (imp_touches tbl self other)"

definition BaseGeometry_within :: "imp \<Rightarrow> BaseGeometry \<Rightarrow> BaseGeometry \<Rightarrow> error + bool" where
  "BaseGeometry_within tbl self other = py_bool (imp_within tbl self other)"

definition BaseGeometry_equals_exact ::
  "imp \<Rightarrow> BaseGeometry \<Rightarrow> BaseGeometry \<Rightarrow> real \<Rightarrow> error + bool" where
  "BaseGeometry_equals_exact tbl self other tolerance =
     py_bool (imp_equals_exact tbl self other tolerance)"


subsection \<open>Linear referencing\<close>

definition BaseGeometry_project ::
  "imp \<Rightarrow> BaseGeometry \<Rightarrow> BaseGeometry \<Rightarrow> bool \<Rightarrow> error + real" where
  "BaseGeometry_project tbl self other normalized =
     (let op = (if normalized then imp_project_normalized tbl else imp_project tbl)
      in op self other)"

definition BaseGeometry_interpolate ::
  "lgeos \<Rightarrow> imp \<Rightarrow> BaseGeometry \<Rightarrow> real \<Rightarrow> bool \<Rightarrow> error + BaseGeometry" where
  "BaseGeometry_interpolate eng tbl self distance normalized =
     (let op = (if normalized then imp_interpolate_normalized tbl else imp_interpolate tbl)
      in bind_result (op self distance) (\<lambda>g. geom_factory eng g None))"

subsection \<open>\<open>BaseMultiPartGeometry\<close>: the overrides\<close>

definition BaseMultiPartGeometry_ctypes :: "BaseGeometry \<Rightarrow> error + nat" where
  "BaseMultiPartGeometry_ctypes self =
     Inl (NotImplementedError ''Multi-part geometries have no ctypes representations'')"

definition BaseMultiPartGeometry_array_interface :: "BaseGeometry \<Rightarrow> error + nat" where
  "BaseMultiPartGeometry_array_interface self =
     Inl (NotImplementedError
       ''Multi-part geometries do not themselves provide the array interface'')"

definition BaseMultiPartGeometry_get_coords :: "BaseGeometry \<Rightarrow> error + CoordinateSequence" where
  "BaseMultiPartGeometry_get_coords self =
     Inl (NotImplementedError
       ''Sub-geometries may have coordinate sequences, but collections do not'')"

definition BaseMultiPartGeometry_set_coords :: "BaseGeometry \<Rightarrow> 'ob \<Rightarrow> error + unit" where
  "BaseMultiPartGeometry_set_coords self ob =
     Inl (NotImplementedError
       ''Sub-geometries may have coordinate sequences, but collections do not'')"

text \<open>
  The class defines \<open>coords\<close> anew with \<open>@property\<close>: the function below is its \<open>fget\<close>,
  and it has no \<open>fset\<close>.
\<close>

definition BaseMultiPartGeometry_coords_fget ::
  "BaseGeometry \<Rightarrow> error + CoordinateSequence" where
  "BaseMultiPartGeometry_coords_fget self =
     Inl (NotImplementedError ''Multi-part geometries do not provide a coordinate sequence'')"

definition BaseMultiPartGeometry_coords :: "(CoordinateSequence, 'ob) property" where
  "BaseMultiPartGeometry_coords = \<lparr>fget = Some BaseMultiPartGeometry_coords_fget, fset = None\<rparr>"

subsection \<open>\<open>GeometrySequence\<close> and \<open>HeterogeneousGeometrySequence\<close>\<close>

text \<open>
  The two sequence classes share one record; \<open>gs_class\<close> selects the \<open>_get_geom_item\<close>
  that a call on the object reaches. \<open>gs_factory\<close> is the callable \<open>_factory\<close> (the class
  of the members, defined in another module), \<open>None\<close> in the heterogeneous class.
  \<open>gs_p\<close> is the parent wrapper as the reference \<open>__p__\<close> shows it at the time of the call.
\<close>

datatype seq_class = GeometrySequence_class | HeterogeneousGeometrySequence_class

record GeometrySequence =
  gs_class :: seq_class
  gs_factory :: "(unit \<Rightarrow> BaseGeometry) option"
  gs_geom :: raw
  gs_p :: BaseGeometry
  gs_ndim :: "int option"

definition GeometrySequence_init ::
  "BaseGeometry \<Rightarrow> (unit \<Rightarrow> BaseGeometry) option \<Rightarrow> GeometrySequence" where
  "GeometrySequence_init parent type =
     \<lparr>gs_class = GeometrySequence_class, gs_factory = type, gs_geom = None,
      gs_p = parent, gs_ndim = None\<rparr>"

definition HeterogeneousGeometrySequence_init :: "BaseGeometry \<Rightarrow> GeometrySequence" where
  "HeterogeneousGeometrySequence_init parent =
     (GeometrySequence_init parent None)\<lparr>gs_class := HeterogeneousGeometrySequence_class\<rparr>"

definition GeometrySequence_update :: "GeometrySequence \<Rightarrow> GeometrySequence" where
  "GeometrySequence_update self =
     self\<lparr>gs_geom := bg_geom (gs_p self), gs_ndim := bg_ndim (gs_p self)\<rparr>"

text \<open>\<open>GeometrySequence._get_geom_item\<close>; calling a \<open>_factory\<close> that is None raises TypeError.\<close>

definition GeometrySequence_get_geom_item ::
  "lgeos \<Rightarrow> GeometrySequence \<Rightarrow> int \<Rightarrow> error + BaseGeometry" where
  "GeometrySequence_get_geom_item eng self i =
     (case gs_factory self of
        None \<Rightarrow> Inl (TypeError (CHR 0x27 # ''NoneType' object is not callable''))
      | Some factory \<Rightarrow>
          let g = factory ();
              g = g\<lparr>bg_owned := True\<rparr>;
              g = g\<lparr>bg_geom := GEOSGetGeometryN eng (gs_geom self) i\<rparr>
          in Inr g)"

definition HeterogeneousGeometrySequence_get_geom_item ::
  "lgeos \<Rightarrow> GeometrySequence \<Rightarrow> int \<Rightarrow> error + BaseGeometry" where
  "HeterogeneousGeometrySequence_get_geom_item eng self i =
     (let sub = GEOSGetGeometryN eng (gs_geom self) i
      in bind_result (geom_factory eng sub None) (\<lambda>g. Inr (g\<lparr>bg_owned := True\<rparr>)))"

text \<open>The call \<open>self._get_geom_item(i)\<close>, resolved by the class of \<open>self\<close>.\<close>

definition get_geom_item :: "lgeos \<Rightarrow> GeometrySequence \<Rightarrow> int \<Rightarrow> error + BaseGeometry" where
  "get_geom_item eng self i =
     (case gs_class self of
        GeometrySequence_class \<Rightarrow> GeometrySequence_get_geom_item eng self i
      | HeterogeneousGeometrySequence_class \<Rightarrow>
          HeterogeneousGeometrySequence_get_geom_item eng self i)"

text \<open>
  The public methods return their result together with the sequence as \<open>_update\<close> left it.
\<close>

definition GeometrySequence_len :: "lgeos \<Rightarrow> GeometrySequence \<Rightarrow> int \<times> GeometrySequence" where
  "GeometrySequence_len eng self =
     (let self = GeometrySequence_update self
      in (GEOSGetNumGeometries eng (gs_geom self), self))"

definition GeometrySequence_getitem ::
  "lgeos \<Rightarrow> GeometrySequence \<Rightarrow> int \<Rightarrow> (error + BaseGeometry) \<times> GeometrySequence" where
  "GeometrySequence_getitem eng self i =
     (let self = GeometrySequence_update self;
          (M, self) = GeometrySequence_len eng self
      in if i + M < 0 \<or> i \<ge> M then (Inl (IndexError ''index out of range''), self)
         else
           let ii = (if i < 0 then M + i else i)
           in (get_geom_item eng self i, self))"

text \<open>
  \<open>__iter__\<close> is a generator: it yields the members one by one and ends at the first
  exception. The model returns the members yielded and the exception, if any.
\<close>

fun yield_items :: "(int \<Rightarrow> error + 'a) \<Rightarrow> int list \<Rightarrow> 'a list \<times> error option" where
  "yield_items f [] = ([], None)"
| "yield_items f (i # is) =
     (case f i of
        Inl e \<Rightarrow> ([], Some e)
      | Inr g \<Rightarrow> (let (gs, e) = yield_items f is in (g # gs, e)))"

definition GeometrySequence_iter ::
  "lgeos \<Rightarrow> GeometrySequence \<Rightarrow> (BaseGeometry list \<times> error option) \<times> GeometrySequence" where
  "GeometrySequence_iter eng self =
     (let self = GeometrySequence_update self;
          (M, self) = GeometrySequence_len eng self
      in (yield_items (get_geom_item eng self) [0..M - 1], self))"

subsection \<open>Sample engines, tables and objects\<close>

text \<open>
  An engine that holds a MultiPoint at address 1 with two Point members at the addresses
  10 and 20, and answers NULL to a member index outside 0 and 1.
\<close>

definition lgeos_multipoint :: lgeos where
  "lgeos_multipoint =
     \<lparr>GEOSGeomTypeId = (\<lambda>g. if g = Some 1 then 4 else 0),
      GEOSGetGeometryN = (\<lambda>g n. if g = Some 1 \<and> n = 0 then Some 10
                                 else if g = Some 1 \<and> n = 1 then Some 20 else None),
      GEOSGetNumGeometries = (\<lambda>g. if g = Some 1 then 2 else 1)\<rparr>"

text \<open>An engine that reports one and the same type tag for every geometry.\<close>

definition lgeos_tag :: "int \<Rightarrow> lgeos" where
  "lgeos_tag t =
     \<lparr>GEOSGeomTypeId = (\<lambda>g. t), GEOSGetGeometryN = (\<lambda>g n. None),
      GEOSGetNumGeometries = (\<lambda>g. 0)\<rparr>"

text \<open>An engine whose collections count two members and hand out NULL for each.\<close>

definition lgeos_null_member :: lgeos where
  "lgeos_null_member =
     \<lparr>GEOSGeomTypeId = (\<lambda>g. 7), GEOSGetGeometryN = (\<lambda>g n. None),
      GEOSGetNumGeometries = (\<lambda>g. 2)\<rparr>"

text \<open>A wrapper of class \<open>c\<close> around the raw reference \<open>g\<close>, and the one without a geometry.\<close>

definition wrapper_of :: "string \<Rightarrow> raw \<Rightarrow> BaseGeometry" where
  "wrapper_of c g = BaseGeometry_init\<lparr>bg_class := c, bg_geom := g, bg_ndim := Some 2\<rparr>"

definition null_wrapper :: BaseGeometry where
  "null_wrapper = BaseGeometry_init"

definition Point_blank :: "unit \<Rightarrow> BaseGeometry" where
  "Point_blank u = BaseGeometry_init\<lparr>bg_class := ''Point''\<rparr>"

definition multipoint_geoms :: GeometrySequence where
  "multipoint_geoms = GeometrySequence_init (wrapper_of ''MultiPoint'' (Some 1)) (Some Point_blank)"

definition collection_geoms :: GeometrySequence where
  "collection_geoms = HeterogeneousGeometrySequence_init (wrapper_of ''GeometryCollection'' (Some 1))"

text \<open>A \<open>pow\<close> that returns the float nearest to the power.\<close>

definition pow_rounded :: "real \<Rightarrow> real \<Rightarrow> real" where
  "pow_rounded x y = binary64_round (x powr y)"

text \<open>A table whose functions never look at the wrapper they are given.\<close>

definition imp_const :: imp where
  "imp_const =
     \<lparr>imp_area = (\<lambda>a. Inr 0),
      imp_distance = (\<lambda>a b. Inr 0),
      imp_length = (\<lambda>a. Inr 0),
      imp_boundary = (\<lambda>a. Inr (Some 1)),
      imp_bounds = (\<lambda>a. Inr (0, 0, 0, 0)),
      imp_centroid = (\<lambda>a. Inr (Some 1)),
      imp_convex_hull = (\<lambda>a. Inr (Some 1)),
      imp_envelope = (\<lambda>a. Inr (Some 1)),
      imp_buffer = (\<lambda>a d q. Inr (Some 1)),
      imp_simplify = (\<lambda>a t. Inr (Some 1)),
      imp_topology_preserve_simplify = (\<lambda>a t. Inr (Some 1)),
      imp_difference = (\<lambda>a b. Inr (Some 1)),
      imp_intersection = (\<lambda>a b. Inr (Some 1)),
      imp_symmetric_difference = (\<lambda>a b. Inr (Some 1)),
      imp_union = (\<lambda>a b. Inr (Some 1)),
      imp_has_z = (\<lambda>a. Inr 0),
      imp_is_empty = (\<lambda>a. Inr 1),
      imp_is_ring = (\<lambda>a. Inr 0),
      imp_is_simple = (\<lambda>a. Inr 1),
      imp_is_valid = (\<lambda>a. Inr 1),
      imp_relate = (\<lambda>a b. Inr ''FFFFFFFF2''),
      imp_contains = (\<lambda>a b. Inr 0),
      imp_crosses = (\<lambda>a b. Inr 0),
      imp_disjoint = (\<lambda>a b. Inr 1),
      imp_equals = (\<lambda>a b. Inr 0),
      imp_intersects = (\<lambda>a b. Inr 0),
      imp_overlaps = (\<lambda>a b. Inr 0),
      imp_touches = (\<lambda>a b. Inr 0),
      imp_within = (\<lambda>a b. Inr 0),
      imp_equals_exact = (\<lambda>a b t. Inr 0),
      imp_project = (\<lambda>a b. Inr 0),
      imp_project_normalized = (\<lambda>a b. Inr 0),
      imp_interpolate = (\<lambda>a d. Inr (Some 1)),
      imp_interpolate_normalized = (\<lambda>a d. Inr (Some 1))\<rparr>"

section \<open>Properties\<close>

subsection \<open>Auxiliary facts\<close>

lemma del_eq:
  "BaseGeometry_del w rl =
     (w\<lparr>bg_geom := None, bg_p := None\<rparr>,
      (case bg_geom w of None \<Rightarrow> rl | Some a \<Rightarrow> if bg_owned w then rl else rl @ [a]))"
  by (simp add: BaseGeometry_del_def GEOSGeom_destroy_def split: option.splits)

lemma py_getitem_types:
  "py_getitem GEOMETRY_TYPES t =
     (if 0 \<le> t \<and> t \<le> 7 then Inr (GEOMETRY_TYPES ! nat t)
      else if -8 \<le> t \<and> t < 0 then Inr (GEOMETRY_TYPES ! nat (8 + t))
      else Inl (IndexError ''list index out of range''))"
  by (auto simp: py_getitem_def GEOMETRY_TYPES_def Let_def)

lemma bind_result_Inr_iff:
  "bind_result r f = Inr y \<longleftrightarrow> (\<exists>v. r = Inr v \<and> f v = Inr y)"
  by (cases r) (simp_all add: bind_result_def)

lemma homogeneous_item_owned:
  "GeometrySequence_get_geom_item eng s i = Inr g \<Longrightarrow> bg_owned g"
  by (auto simp: GeometrySequence_get_geom_item_def Let_def split: option.splits)

lemma heterogeneous_item_owned:
  "HeterogeneousGeometrySequence_get_geom_item eng s i = Inr g \<Longrightarrow> bg_owned g"
  by (auto simp: HeterogeneousGeometrySequence_get_geom_item_def Let_def bind_result_Inr_iff)

lemma get_geom_item_owned: "get_geom_item eng s i = Inr g \<Longrightarrow> bg_owned g"
  by (cases "gs_class s")
     (auto simp: get_geom_item_def dest: homogeneous_item_owned heterogeneous_item_owned)

text \<open>\<open>__getitem__\<close> with \<open>_update\<close> and \<open>__len__\<close> unfolded.\<close>

lemma getitem_eq:
  "GeometrySequence_getitem eng s i =
     (let s' = GeometrySequence_update s; M = GEOSGetNumGeometries eng (bg_geom (gs_p s))
      in if i + M < 0 \<or> M \<le> i then (Inl (IndexError ''index out of range''), s')
         else (get_geom_item eng s' i, s'))"
  by (simp add: GeometrySequence_getitem_def GeometrySequence_len_def
        GeometrySequence_update_def Let_def)

lemma getitem_owned: "fst (GeometrySequence_getitem eng s i) = Inr g \<Longrightarrow> bg_owned g"
  by (auto simp: getitem_eq Let_def split: if_splits dest: get_geom_item_owned)

lemma yield_items_all:
  "(\<And>i g. f i = Inr g \<Longrightarrow> P g) \<Longrightarrow> g \<in> set (fst (yield_items f js)) \<Longrightarrow> P g"
proof (induction js)
  case Nil
  then show ?case by simp
next
  case (Cons j js)
  show ?case
  proof (cases "f j")
    case (Inl e)
    with Cons.prems(2) show ?thesis by simp
  next
    case (Inr h)
    with Cons.prems(2) have "g = h \<or> g \<in> set (fst (yield_items f js))"
      by (auto split: prod.splits)
    then show ?thesis
      using Inr Cons.prems(1) Cons.IH by blast
  qed
qed

lemma iter_owned:
  "g \<in> set (fst (fst (GeometrySequence_iter eng s))) \<Longrightarrow> bg_owned g"
  unfolding GeometrySequence_iter_def GeometrySequence_len_def Let_def
  by (auto elim: yield_items_all [rotated] dest: get_geom_item_owned)

text \<open>
  Which index \<open>__getitem__\<close> hands to \<open>_get_geom_item\<close>: outside \<open>-M .. M - 1\<close> it raises
  IndexError, inside it passes the index it was given.
\<close>

lemma getitem_index_passed:
  assumes "M = GEOSGetNumGeometries eng (bg_geom (gs_p s))"
  shows "(i < - M \<or> M \<le> i \<longrightarrow>
            fst (GeometrySequence_getitem eng s i) = Inl (IndexError ''index out of range''))
       \<and> (- M \<le> i \<and> i < M \<longrightarrow>
            fst (GeometrySequence_getitem eng s i)
              = get_geom_item eng (GeometrySequence_update s) i)"
  using assms by (auto simp: getitem_eq Let_def)

lemmas sample_defs =
  lgeos_multipoint_def lgeos_tag_def wrapper_of_def null_wrapper_def
  Point_blank_def multipoint_geoms_def collection_geoms_def BaseGeometry_init_def
  GeometrySequence_init_def HeterogeneousGeometrySequence_init_def

lemmas seq_defs =
  getitem_eq get_geom_item_def GeometrySequence_get_geom_item_def
  HeterogeneousGeometrySequence_get_geom_item_def GeometrySequence_update_def
  geom_factory_def geometry_type_name_def py_getitem_def GEOMETRY_TYPES_def truthy_def
  bind_result_def Let_def

lemma iter_multipoint:
  "fst (fst (GeometrySequence_iter lgeos_multipoint multipoint_geoms)) =
     [(Point_blank ())\<lparr>bg_owned := True, bg_geom := Some 10\<rparr>,
      (Point_blank ())\<lparr>bg_owned := True, bg_geom := Some 20\<rparr>]"
  by (simp add: GeometrySequence_iter_def GeometrySequence_len_def upto.simps seq_defs sample_defs)

subsection \<open>Facts about floats\<close>

lemma round_half_even_down:
  assumes "of_int f \<le> x" and "x - of_int f < 1 / 2"
  shows "round_half_even x = f"
proof -
  from assms have "\<lfloor>x\<rfloor> = f" by (intro floor_unique) auto
  with assms(2) show ?thesis by (simp add: round_half_even_def)
qed

lemma two_powr_of_int: "(2::real) powr real_of_int j = 2 powi j"
  by (rule powr_real_of_int') simp_all

lemma floor_log2_eq:
  assumes "2 powi k \<le> \<bar>x\<bar>" and "\<bar>x\<bar> < 2 powi (k + 1)"
  shows "\<lfloor>log 2 \<bar>x\<bar>\<rfloor> = k"
proof -
  have "(0::real) < 2 powi k" by simp
  with assms(1) have pos: "0 < \<bar>x\<bar>" by linarith
  have one: "1 < (2::real)" by simp
  have "2 powr real_of_int k \<le> \<bar>x\<bar> \<and> \<bar>x\<bar> < 2 powr real_of_int (k + 1)"
    unfolding two_powr_of_int using assms by (rule conjI)
  with floor_log_eq_powr_iff [OF pos one, of k] show ?thesis by blast
qed

lemma binary64_exponent_eq:
  assumes "2 powi k \<le> \<bar>x\<bar>" and "\<bar>x\<bar> < 2 powi (k + 1)" and "- 1022 \<le> k"
  shows "binary64_exponent x = k - 52"
  using floor_log2_eq [OF assms(1,2)] assms(3) by (simp add: binary64_exponent_def)

lemma binary64_exponent_subnormal:
  assumes "x \<noteq> 0" and "\<bar>x\<bar> < 2 powi (- 1022)"
  shows "binary64_exponent x = - 1074"
proof -
  have pos: "0 < \<bar>x\<bar>" using assms(1) by simp
  have one: "1 < (2::real)" by simp
  have "\<bar>x\<bar> < 2 powr real_of_int (- 1022)"
    unfolding two_powr_of_int by (rule assms(2))
  then have "log 2 \<bar>x\<bar> < real_of_int (- 1022)"
    using pos one by (simp only: log_less_iff)
  then have "\<lfloor>log 2 \<bar>x\<bar>\<rfloor> < - 1022"
    by (simp only: floor_less_iff)
  moreover define f where "f = \<lfloor>log 2 \<bar>x\<bar>\<rfloor>"
  ultimately have "f < - 1022" by simp
  then have "max (f - 52) (- 1074) = - 1074" by simp
  then show ?thesis by (simp only: binary64_exponent_def f_def)
qed

text \<open>
  The float nearest to \<open>x\<close> when \<open>2^k \<le> |x| < 2^(k+1)\<close> in the normal range and \<open>f\<close> is the
  nearest integer below \<open>x / 2^(k-52)\<close>.
\<close>

lemma binary64_round_eq:
  assumes "2 powi k \<le> \<bar>x\<bar>" and "\<bar>x\<bar> < 2 powi (k + 1)" and "- 1022 \<le> k"
    and "of_int f \<le> x / 2 powi (k - 52)" and "x / 2 powi (k - 52) - of_int f < 1 / 2"
  shows "binary64_round x = of_int f * 2 powi (k - 52)"
proof -
  have "(0::real) < 2 powi k" by simp
  with assms(1) have "0 < \<bar>x\<bar>" by linarith
  then have "x \<noteq> 0" by simp
  moreover have "binary64_exponent x = k - 52"
    by (rule binary64_exponent_eq [OF assms(1-3)])
  moreover have "round_half_even (x / 2 powi (k - 52)) = f"
    by (rule round_half_even_down [OF assms(4,5)])
  ultimately show ?thesis by (simp add: binary64_round_def)
qed











text \<open>With a correctly rounded \<open>pow\<close>, the tolerance at \<open>decimal = 324\<close> is the float 0.\<close>

lemma pow_rounded_underflow: "tolerance_expr pow_rounded 324 = Inr 0"
proof -
  have e: "binary64_round (- 324) = - 324"
    using binary64_round_eq [of 8 "- 324" "- 324 * 2 ^ 44"] by (simp add: power_int_minus)
  have p: "(10::real) powr (- 324) = 1 / 10 ^ 324"
    by (simp add: powr_minus_divide)
  have s: "binary64_exponent (1 / 10 ^ 324) = - 1074"
    by (rule binary64_exponent_subnormal) (simp_all add: power_int_minus)
  have "round_half_even (1 / 10 ^ 324 / 2 powi (- 1074)) = 0"
    by (rule round_half_even_down) (simp_all add: power_int_minus)
  with s have z: "binary64_round (1 / 10 ^ 324) = 0"
    by (simp add: binary64_round_def)
  have "py_float_of_int (- 324) = Inr (- 324)"
    by (simp add: py_float_of_int_def e)
  then have t: "tolerance_expr pow_rounded 324
                  = Inr (binary64_round (0.5 * pow_rounded 10 (- 324)))"
    by (simp add: tolerance_expr_def bind_result_def)
  have "pow_rounded 10 (- 324) = 0"
    by (simp only: pow_rounded_def p z)
  then show ?thesis
    by (simp add: t binary64_round_def)
qed

subsection \<open>Ownership of the members of a sequence\<close>

text \<open>
  C1. Every wrapper that a sequence of either class produces, through \<open>_get_geom_item\<close>,
  through indexing or through iteration, has \<open>_owned\<close> set, and its destructor leaves the
  release log as it was: it never calls the engine's release. The engine is changed by
  release calls only, so the parent's storage and the other members stay as they were.
\<close>

theorem part_sequence_children_non_owning:
  assumes "get_geom_item eng s i = Inr g
         \<or> fst (GeometrySequence_getitem eng s i) = Inr g
         \<or> g \<in> set (fst (fst (GeometrySequence_iter eng s)))"
  shows "bg_owned g \<and> snd (BaseGeometry_del g rl) = rl"
proof -
  from assms have "bg_owned g"
    using get_geom_item_owned getitem_owned iter_owned by blast
  then show ?thesis by (simp add: del_eq split: option.splits)
qed

theorem part_sequence_children_non_owning_witness:
  "fst (GeometrySequence_getitem lgeos_multipoint multipoint_geoms 0)
     = Inr ((Point_blank ())\<lparr>bg_owned := True, bg_geom := Some 10\<rparr>)
   \<and> snd (BaseGeometry_del ((Point_blank ())\<lparr>bg_owned := True, bg_geom := Some 10\<rparr>) []) = []
   \<and> fst (GeometrySequence_getitem lgeos_multipoint collection_geoms 1)
     = Inr ((wrapper_of ''Point'' (Some 20))\<lparr>bg_owned := True\<rparr>)
   \<and> snd (BaseGeometry_del ((wrapper_of ''Point'' (Some 20))\<lparr>bg_owned := True\<rparr>) []) = []
   \<and> (Point_blank ())\<lparr>bg_owned := True, bg_geom := Some 20\<rparr>
       \<in> set (fst (fst (GeometrySequence_iter lgeos_multipoint multipoint_geoms)))
   \<and> snd (BaseGeometry_del ((Point_blank ())\<lparr>bg_owned := True, bg_geom := Some 20\<rparr>) []) = []"
proof -
  have a: "fst (GeometrySequence_getitem lgeos_multipoint multipoint_geoms 0)
             = Inr ((Point_blank ())\<lparr>bg_owned := True, bg_geom := Some 10\<rparr>)"
    by (simp add: seq_defs sample_defs)
  have b: "fst (GeometrySequence_getitem lgeos_multipoint collection_geoms 1)
             = Inr ((wrapper_of ''Point'' (Some 20))\<lparr>bg_owned := True\<rparr>)"
    by (simp add: seq_defs sample_defs)
  have c: "(Point_blank ())\<lparr>bg_owned := True, bg_geom := Some 20\<rparr>
             \<in> set (fst (fst (GeometrySequence_iter lgeos_multipoint multipoint_geoms)))"
    by (simp add: iter_multipoint)
  show ?thesis
    using a b c
      part_sequence_children_non_owning
        [of lgeos_multipoint multipoint_geoms 0 _ "[]", OF disjI2, OF disjI1, OF a]
      part_sequence_children_non_owning
        [of lgeos_multipoint collection_geoms 1 _ "[]", OF disjI2, OF disjI1, OF b]
      part_sequence_children_non_owning
        [of lgeos_multipoint multipoint_geoms 0 _ "[]", OF disjI2, OF disjI2, OF c]
    by simp
qed

subsection \<open>The destructor\<close>

text \<open>
  C5. The destructor calls the engine's release once, on the raw reference, when the
  wrapper has a reference that is not None and \<open>_owned\<close> is false, and not at all
  otherwise. It clears the reference, so that a second run on the wrapper it leaves
  releases nothing.
\<close>

theorem del_releases_once:
  "(bg_geom w = Some a \<and> \<not> bg_owned w \<longrightarrow> snd (BaseGeometry_del w rl) = rl @ [a])
   \<and> (bg_geom w = None \<or> bg_owned w \<longrightarrow> snd (BaseGeometry_del w rl) = rl)
   \<and> bg_geom (fst (BaseGeometry_del w rl)) = None
   \<and> snd (BaseGeometry_del (fst (BaseGeometry_del w rl)) (snd (BaseGeometry_del w rl)))
       = snd (BaseGeometry_del w rl)"
  by (auto simp: del_eq split: option.splits)

theorem del_releases_once_witness:
  "snd (BaseGeometry_del (wrapper_of ''Point'' (Some 7)) []) = [7]
   \<and> snd (BaseGeometry_del ((wrapper_of ''Point'' (Some 7))\<lparr>bg_owned := True\<rparr>) []) = []
   \<and> snd (BaseGeometry_del null_wrapper []) = []
   \<and> snd (BaseGeometry_del (fst (BaseGeometry_del (wrapper_of ''Point'' (Some 7)) [])) [7]) = [7]"
  using del_releases_once [of "wrapper_of ''Point'' (Some 7)" 7 "[]"]
        del_releases_once [of "(wrapper_of ''Point'' (Some 7))\<lparr>bg_owned := True\<rparr>" 7 "[]"]
        del_releases_once [of null_wrapper 7 "[]"]
  by (simp add: del_eq wrapper_of_def null_wrapper_def BaseGeometry_init_def)

subsection \<open>Indexing a sequence\<close>

text \<open>
  C3. Indexing is meant to resolve a negative index \<open>i\<close> with \<open>-N \<le> i\<close> to the member
  \<open>N + i\<close>, so that index \<open>-1\<close> gives the same member as index \<open>N - 1\<close>. \<open>__getitem__\<close>
  computes the resolved index \<open>ii\<close> and then calls \<open>_get_geom_item\<close> with \<open>i\<close>: on the
  MultiPoint with the members 10 and 20 the engine is asked for member \<open>-1\<close>. With this
  engine the homogeneous sequence returns a wrapper without a geometry and the
  heterogeneous one raises, where index 1 gives the member 20 in both.
\<close>

theorem getitem_negative_index_not_resolved:
  "fst (GeometrySequence_getitem lgeos_multipoint multipoint_geoms (-1))
     = get_geom_item lgeos_multipoint (GeometrySequence_update multipoint_geoms) (-1)
   \<and> fst (GeometrySequence_getitem lgeos_multipoint multipoint_geoms (-1))
     = Inr ((Point_blank ())\<lparr>bg_owned := True, bg_geom := None\<rparr>)
   \<and> fst (GeometrySequence_getitem lgeos_multipoint multipoint_geoms 1)
     = Inr ((Point_blank ())\<lparr>bg_owned := True, bg_geom := Some 20\<rparr>)
   \<and> fst (GeometrySequence_getitem lgeos_multipoint collection_geoms (-1))
     = Inl (ValueError ''No Shapely geometry can be created from null value'')
   \<and> fst (GeometrySequence_getitem lgeos_multipoint collection_geoms 1)
     = Inr ((wrapper_of ''Point'' (Some 20))\<lparr>bg_owned := True\<rparr>)"
  by (simp add: seq_defs sample_defs)

text \<open>
  C10. When the engine hands out NULL for a member at an index from 0 to the count less
  one, indexing a heterogeneous sequence raises the ValueError of \<open>geom_factory\<close>, whereas
  indexing a homogeneous sequence returns the blank instance of the member class with
  \<open>_owned\<close> set and no geometry.
\<close>

theorem null_child_divergence:
  assumes "0 \<le> i" and "i < GEOSGetNumGeometries eng (bg_geom (gs_p s))"
    and "GEOSGetGeometryN eng (bg_geom (gs_p s)) i = None"
  shows "(gs_class s = HeterogeneousGeometrySequence_class \<longrightarrow>
            fst (GeometrySequence_getitem eng s i)
              = Inl (ValueError ''No Shapely geometry can be created from null value''))
       \<and> (gs_class s = GeometrySequence_class \<and> gs_factory s = Some f \<longrightarrow>
            fst (GeometrySequence_getitem eng s i)
              = Inr ((f ())\<lparr>bg_owned := True, bg_geom := None\<rparr>))"
  using assms
  by (auto simp: getitem_eq get_geom_item_def GeometrySequence_get_geom_item_def
        HeterogeneousGeometrySequence_get_geom_item_def GeometrySequence_update_def
        geom_factory_def truthy_def bind_result_def Let_def)

theorem null_child_divergence_witness:
  "fst (GeometrySequence_getitem lgeos_null_member collection_geoms 1)
     = Inl (ValueError ''No Shapely geometry can be created from null value'')
   \<and> fst (GeometrySequence_getitem lgeos_null_member multipoint_geoms 1)
     = Inr ((Point_blank ())\<lparr>bg_owned := True, bg_geom := None\<rparr>)"
  using null_child_divergence [of 1 lgeos_null_member collection_geoms Point_blank]
        null_child_divergence [of 1 lgeos_null_member multipoint_geoms Point_blank]
  by (simp add: lgeos_null_member_def sample_defs)

subsection \<open>Type names and the factory\<close>

text \<open>
  C6, as the code has it. For a raw reference that is not None, \<open>geometry_type_name\<close>
  returns the name at the position of the engine's tag when the tag is from 0 to 7, and
  raises IndexError, returning no name, when the tag is 8 or more or less than \<open>-8\<close>.
  A tag from \<open>-8\<close> to \<open>-1\<close> is not rejected: the list is indexed from its end.
\<close>

theorem geometry_type_name_by_tag:
  assumes "g \<noteq> None" and "t = GEOSGeomTypeId eng g"
  shows "(0 \<le> t \<and> t \<le> 7 \<longrightarrow> geometry_type_name eng g = Inr (GEOMETRY_TYPES ! nat t))
       \<and> (8 \<le> t \<or> t < -8 \<longrightarrow>
            geometry_type_name eng g = Inl (IndexError ''list index out of range''))
       \<and> (-8 \<le> t \<and> t < 0 \<longrightarrow>
            geometry_type_name eng g = Inr (GEOMETRY_TYPES ! nat (8 + t)))"
  using assms by (auto simp: geometry_type_name_def py_getitem_types)

theorem geometry_type_name_by_tag_witness:
  "geometry_type_name lgeos_multipoint (Some 1) = Inr ''MultiPoint''
   \<and> geometry_type_name (lgeos_tag 8) (Some 1) = Inl (IndexError ''list index out of range'')
   \<and> geometry_type_name (lgeos_tag (-9)) (Some 1) = Inl (IndexError ''list index out of range'')
   \<and> geometry_type_name (lgeos_tag (-8)) (Some 1) = Inr ''Point''"
  using geometry_type_name_by_tag [of "Some 1" 4 lgeos_multipoint]
        geometry_type_name_by_tag [of "Some 1" 8 "lgeos_tag 8"]
        geometry_type_name_by_tag [of "Some 1" "-9" "lgeos_tag (-9)"]
        geometry_type_name_by_tag [of "Some 1" "-8" "lgeos_tag (-8)"]
  by (simp add: sample_defs GEOMETRY_TYPES_def)

text \<open>
  C6, as stated, fails at the tag \<open>-1\<close>, which lies outside 0 to 7: the call returns the
  last name of the table.
\<close>

theorem geometry_type_name_negative_tag:
  "geometry_type_name (lgeos_tag (-1)) (Some 1) = Inr ''GeometryCollection''"
  by (simp add: geometry_type_name_def py_getitem_def lgeos_tag_def GEOMETRY_TYPES_def)

text \<open>
  C7. On the raw input None, \<open>geometry_type_name\<close> raises its ValueError and
  \<open>geom_factory\<close> raises its ValueError and builds no wrapper, whatever the engine and the
  parent argument; \<open>geom_factory\<close> rejects the address 0 in the same way.
\<close>

theorem null_raw_rejected:
  "geometry_type_name eng None = Inl (ValueError ''Null geometry has no type'')
   \<and> geom_factory eng None parent
       = Inl (ValueError ''No Shapely geometry can be created from null value'')
   \<and> geom_factory eng (Some 0) parent
       = Inl (ValueError ''No Shapely geometry can be created from null value'')"
  by (simp add: geometry_type_name_def geom_factory_def truthy_def)

text \<open>
  C4. For a raw reference that is not null and whose engine tag \<open>t\<close> is from 0 to 7,
  \<open>geom_factory\<close> returns a wrapper whose \<open>geometryType()\<close> and class are the name at
  position \<open>t\<close> of the table, which holds the reference and is not marked as owned by
  another object, so that its destructor releases the reference, whose \<open>_ndim\<close> is 2 and
  whose \<open>__p__\<close> is the parent argument, None by default.
\<close>

theorem geom_factory_wraps_owning:
  assumes "a \<noteq> 0" and "t = GEOSGeomTypeId eng (Some a)" and "0 \<le> t" and "t \<le> 7"
  shows "\<exists>ob. geom_factory eng (Some a) parent = Inr ob
           \<and> BaseGeometry_geometryType eng ob = Inr (GEOMETRY_TYPES ! nat t)
           \<and> bg_class ob = GEOMETRY_TYPES ! nat t
           \<and> bg_geom ob = Some a
           \<and> \<not> bg_owned ob
           \<and> snd (BaseGeometry_del ob rl) = rl @ [a]
           \<and> bg_ndim ob = Some 2
           \<and> bg_p ob = parent"
  using assms
  by (simp add: geom_factory_def geometry_type_name_def py_getitem_types truthy_def
        bind_result_def BaseGeometry_geometryType_def exceptNull_def del_eq
        BaseGeometry_init_def)

theorem geom_factory_wraps_owning_witness:
  "\<exists>ob. geom_factory lgeos_multipoint (Some 1) None = Inr ob
      \<and> BaseGeometry_geometryType lgeos_multipoint ob = Inr ''MultiPoint''
      \<and> bg_class ob = ''MultiPoint''
      \<and> bg_geom ob = Some 1
      \<and> \<not> bg_owned ob
      \<and> snd (BaseGeometry_del ob []) = [1]
      \<and> bg_ndim ob = Some 2
      \<and> bg_p ob = None"
  using geom_factory_wraps_owning [of 1 4 lgeos_multipoint None "[]"]
  by (simp add: sample_defs GEOMETRY_TYPES_def)

subsection \<open>Operations on a wrapper without a geometry\<close>

lemmas delegation_defs =
  BaseGeometry_area_def BaseGeometry_distance_def BaseGeometry_length_def
  BaseGeometry_boundary_def BaseGeometry_bounds_def BaseGeometry_centroid_def
  BaseGeometry_convex_hull_def BaseGeometry_envelope_def BaseGeometry_buffer_def
  BaseGeometry_simplify_def BaseGeometry_difference_def BaseGeometry_intersection_def
  BaseGeometry_symmetric_difference_def BaseGeometry_union_def BaseGeometry_has_z_def
  BaseGeometry_is_empty_def BaseGeometry_is_ring_def BaseGeometry_is_simple_def
  BaseGeometry_is_valid_def BaseGeometry_relate_def BaseGeometry_contains_def
  BaseGeometry_crosses_def BaseGeometry_disjoint_def BaseGeometry_equals_def
  BaseGeometry_intersects_def BaseGeometry_overlaps_def BaseGeometry_touches_def
  BaseGeometry_within_def BaseGeometry_equals_exact_def BaseGeometry_project_def
  BaseGeometry_interpolate_def

lemma guard_rejects_null:
  "\<not> truthy (bg_geom w) \<Longrightarrow>
     exceptNull func w = Inl (ValueError ''Null geometry supports no operations'')"
  by (simp add: exceptNull_def)

text \<open>
  C2, as the code has it. On a wrapper whose \<open>_geom\<close> is None or 0, the operations that
  carry the decorator, \<open>geometryType\<close> (with the properties \<open>type\<close> and \<open>geom_type\<close>) and
  the coordinate access \<open>_get_coords\<close>, raise the decorator's ValueError before their
  body runs. The operations that go to the operation table carry no decorator: they call
  the table's function on the wrapper and return or raise what it returns or raises.
\<close>

theorem null_wrapper_operations:
  assumes "\<not> truthy (bg_geom w)"
  shows "BaseGeometry_geometryType eng w
           = Inl (ValueError ''Null geometry supports no operations'')
       \<and> BaseGeometry_type eng w = Inl (ValueError ''Null geometry supports no operations'')
       \<and> BaseGeometry_geom_type eng w
           = Inl (ValueError ''Null geometry supports no operations'')
       \<and> BaseGeometry_get_coords w = Inl (ValueError ''Null geometry supports no operations'')
       \<and> BaseGeometry_area tbl w = imp_area tbl w
       \<and> BaseGeometry_length tbl w = imp_length tbl w
       \<and> BaseGeometry_distance tbl w other = imp_distance tbl w other
       \<and> BaseGeometry_bounds tbl w = imp_bounds tbl w
       \<and> BaseGeometry_relate tbl w other = imp_relate tbl w other
       \<and> BaseGeometry_project tbl w other normalized
           = (if normalized then imp_project_normalized tbl w other
              else imp_project tbl w other)
       \<and> BaseGeometry_boundary eng tbl w
           = bind_result (imp_boundary tbl w) (\<lambda>g. geom_factory eng g None)
       \<and> BaseGeometry_centroid eng tbl w
           = bind_result (imp_centroid tbl w) (\<lambda>g. geom_factory eng g None)
       \<and> BaseGeometry_convex_hull eng tbl w
           = bind_result (imp_convex_hull tbl w) (\<lambda>g. geom_factory eng g None)
       \<and> BaseGeometry_envelope eng tbl w
           = bind_result (imp_envelope tbl w) (\<lambda>g. geom_factory eng g None)
       \<and> BaseGeometry_buffer eng tbl w d quadsegs
           = bind_result (imp_buffer tbl w d quadsegs) (\<lambda>g. geom_factory eng g None)
       \<and> BaseGeometry_simplify eng tbl w d preserve_topology
           = bind_result (if preserve_topology then imp_topology_preserve_simplify tbl w d
                          else imp_simplify tbl w d) (\<lambda>g. geom_factory eng g None)
       \<and> BaseGeometry_difference eng tbl w other
           = bind_result (imp_difference tbl w other) (\<lambda>g. geom_factory eng g None)
       \<and> BaseGeometry_intersection eng tbl w other
           = bind_result (imp_intersection tbl w other) (\<lambda>g. geom_factory eng g None)
       \<and> BaseGeometry_symmetric_difference eng tbl w other
           = bind_result (imp_symmetric_difference tbl w other) (\<lambda>g. geom_factory eng g None)
       \<and> BaseGeometry_union eng tbl w other
           = bind_result (imp_union tbl w other) (\<lambda>g. geom_factory eng g None)
       \<and> BaseGeometry_interpolate eng tbl w d normalized
           = bind_result (if normalized then imp_interpolate_normalized tbl w d
                          else imp_interpolate tbl w d) (\<lambda>g. geom_factory eng g None)
       \<and> BaseGeometry_has_z tbl w = py_bool (imp_has_z tbl w)
       \<and> BaseGeometry_is_empty tbl w = py_bool (imp_is_empty tbl w)
       \<and> BaseGeometry_is_ring tbl w = py_bool (imp_is_ring tbl w)
       \<and> BaseGeometry_is_simple tbl w = py_bool (imp_is_simple tbl w)
       \<and> BaseGeometry_is_valid tbl w = py_bool (imp_is_valid tbl w)
       \<and> BaseGeometry_contains tbl w other = py_bool (imp_contains tbl w other)
       \<and> BaseGeometry_crosses tbl w other = py_bool (imp_crosses tbl w other)
       \<and> BaseGeometry_disjoint tbl w other = py_bool (imp_disjoint tbl w other)
       \<and> BaseGeometry_equals tbl w other = py_bool (imp_equals tbl w other)
       \<and> BaseGeometry_intersects tbl w other = py_bool (imp_intersects tbl w other)
       \<and> BaseGeometry_overlaps tbl w other = py_bool (imp_overlaps tbl w other)
       \<and> BaseGeometry_touches tbl w other = py_bool (imp_touches tbl w other)
       \<and> BaseGeometry_within tbl w other = py_bool (imp_within tbl w other)
       \<and> BaseGeometry_equals_exact tbl w other d = py_bool (imp_equals_exact tbl w other d)"
proof -
  have guarded:
    "BaseGeometry_geometryType eng w = Inl (ValueError ''Null geometry supports no operations'')"
    "BaseGeometry_get_coords w = Inl (ValueError ''Null geometry supports no operations'')"
    using assms
    by (simp_all add: BaseGeometry_geometryType_def BaseGeometry_get_coords_def
          guard_rejects_null)
  show ?thesis
    unfolding BaseGeometry_type_def BaseGeometry_geom_type_def guarded delegation_defs Let_def
    by simp
qed

theorem null_wrapper_operations_witness:
  "\<not> truthy (bg_geom null_wrapper)
   \<and> BaseGeometry_geometryType lgeos_multipoint null_wrapper
       = Inl (ValueError ''Null geometry supports no operations'')
   \<and> BaseGeometry_get_coords null_wrapper
       = Inl (ValueError ''Null geometry supports no operations'')
   \<and> BaseGeometry_length imp_const null_wrapper = Inr 0
   \<and> BaseGeometry_buffer lgeos_multipoint imp_const null_wrapper 1 16
       = Inr (wrapper_of ''MultiPoint'' (Some 1))
   \<and> BaseGeometry_disjoint imp_const null_wrapper null_wrapper = Inr True"
proof -
  have h: "\<not> truthy (bg_geom null_wrapper)"
    by (simp add: null_wrapper_def BaseGeometry_init_def truthy_def)
  show ?thesis
    using h null_wrapper_operations [OF h, where eng = lgeos_multipoint and tbl = imp_const
        and other = null_wrapper and d = 1 and quadsegs = 16]
    by (simp add: imp_const_def py_bool_def seq_defs sample_defs)
qed

text \<open>
  C2, as stated, fails on the wrapper without a geometry: with a table whose functions do
  not look at the wrapper, \<open>area\<close>, \<open>union\<close> and \<open>is_empty\<close> return a result, and
  \<open>geometryType\<close> does not raise the error of \<open>geometry_type_name\<close>.
\<close>

theorem null_wrapper_area_counterexample:
  "\<not> truthy (bg_geom null_wrapper)
   \<and> BaseGeometry_area imp_const null_wrapper = Inr 0
   \<and> BaseGeometry_union lgeos_multipoint imp_const null_wrapper null_wrapper
       = Inr (wrapper_of ''MultiPoint'' (Some 1))
   \<and> BaseGeometry_is_empty imp_const null_wrapper = Inr True
   \<and> BaseGeometry_geometryType lgeos_multipoint null_wrapper
       \<noteq> Inl (ValueError ''Null geometry has no type'')"
  by (simp add: BaseGeometry_area_def BaseGeometry_union_def BaseGeometry_is_empty_def
        BaseGeometry_geometryType_def exceptNull_def imp_const_def py_bool_def
        seq_defs sample_defs)

subsection \<open>Multi-part geometries\<close>

text \<open>
  C8. Access to \<open>ctypes\<close>, to \<open>__array_interface__\<close> and to the coordinates of a multi-part
  geometry is to raise NotImplementedError. Reading does: the overrides for \<open>ctypes\<close>,
  \<open>__array_interface__\<close> and \<open>_get_coords\<close> and the reading of \<open>coords\<close> raise it on every
  wrapper, and so does \<open>_set_coords\<close> when it is called. The assignment \<open>m.coords = ob\<close>
  does not: the class defines \<open>coords\<close> with \<open>@property\<close>, without a setter, so the
  assignment raises AttributeError and never reaches \<open>_set_coords\<close>, whereas the
  \<open>coords\<close> of \<open>BaseGeometry\<close> hands an assignment to its \<open>_set_coords\<close>.
\<close>

theorem multipart_coords_assignment:
  "property_assign BaseMultiPartGeometry_coords w ob = Inl AttributeError
   \<and> BaseMultiPartGeometry_set_coords w ob
     = Inl (NotImplementedError
         ''Sub-geometries may have coordinate sequences, but collections do not'')
   \<and> property_assign BaseGeometry_coords w ob = BaseGeometry_set_coords w ob
   \<and> property_read BaseMultiPartGeometry_coords w
     = Inl (NotImplementedError ''Multi-part geometries do not provide a coordinate sequence'')
   \<and> BaseMultiPartGeometry_get_coords w
     = Inl (NotImplementedError
         ''Sub-geometries may have coordinate sequences, but collections do not'')
   \<and> BaseMultiPartGeometry_ctypes w
     = Inl (NotImplementedError ''Multi-part geometries have no ctypes representations'')
   \<and> BaseMultiPartGeometry_array_interface w
     = Inl (NotImplementedError
         ''Multi-part geometries do not themselves provide the array interface'')"
  by (simp add: property_assign_def property_read_def BaseMultiPartGeometry_coords_def
        BaseGeometry_coords_def BaseMultiPartGeometry_coords_fget_def
        BaseMultiPartGeometry_ctypes_def BaseMultiPartGeometry_array_interface_def
        BaseMultiPartGeometry_get_coords_def BaseMultiPartGeometry_set_coords_def)

subsection \<open>Comparison within a tolerance\<close>




end
